theory Spec2Isabelle
  imports Main "HOL-Library.Word"
begin

unbundle bit_operations_syntax

section \<open>Errors and log lines\<close>

text \<open>
  Every Go \<^verbatim>\<open>error\<close> value the modelled code can see. \<open>RedisNil\<close> is go-redis's
  \<^verbatim>\<open>redis.Nil\<close> (key absent), \<open>RedisError\<close> any other failure of a backend command,
  \<open>JSONError\<close> a failure of \<^verbatim>\<open>json.Marshal\<close>/\<^verbatim>\<open>json.Unmarshal\<close>,
  \<open>ErrRecordNotFound\<close> is \<^verbatim>\<open>gorm.ErrRecordNotFound\<close>, \<open>DBError\<close> any other
  failure of a query.
\<close>

datatype error = RedisNil | RedisError | JSONError | ErrRecordNotFound | DBError

text \<open>
  A call \<^verbatim>\<open>log.Printf(format, args...)\<close> is recorded as its format string and its
  arguments; a function that logs returns the lines it wrote, in order.
\<close>

datatype logarg = E error | S string | N nat

type_synonym logline = "string \<times> logarg list"

section \<open>crypto/md5 and encoding/hex\<close>

text \<open>
  \<^verbatim>\<open>md5.New(); hash.Write(b); hex.EncodeToString(hash.Sum(nil))\<close>: the MD5 digest of
  RFC 1321 over the bytes of the string, rendered as 32 lower-case hexadecimal digits.
\<close>

definition md5_K :: "32 word list" where
  "md5_K = [
    0xd76aa478, 0xe8c7b756, 0x242070db, 0xc1bdceee, 0xf57c0faf, 0x4787c62a, 0xa8304613, 0xfd469501,
    0x698098d8, 0x8b44f7af, 0xffff5bb1, 0x895cd7be, 0x6b901122, 0xfd987193, 0xa679438e, 0x49b40821,
    0xf61e2562, 0xc040b340, 0x265e5a51, 0xe9b6c7aa, 0xd62f105d, 0x02441453, 0xd8a1e681, 0xe7d3fbc8,
    0x21e1cde6, 0xc33707d6, 0xf4d50d87, 0x455a14ed, 0xa9e3e905, 0xfcefa3f8, 0x676f02d9, 0x8d2a4c8a,
    0xfffa3942, 0x8771f681, 0x6d9d6122, 0xfde5380c, 0xa4beea44, 0x4bdecfa9, 0xf6bb4b60, 0xbebfbc70,
    0x289b7ec6, 0xeaa127fa, 0xd4ef3085, 0x04881d05, 0xd9d4d039, 0xe6db99e5, 0x1fa27cf8, 0xc4ac5665,
    0xf4292244, 0x432aff97, 0xab9423a7, 0xfc93a039, 0x655b59c3, 0x8f0ccc92, 0xffeff47d, 0x85845dd1,
    0x6fa87e4f, 0xfe2ce6e0, 0xa3014314, 0x4e0811a1, 0xf7537e82, 0xbd3af235, 0x2ad7d2bb, 0xeb86d391]"

definition md5_S :: "nat list" where
  "md5_S = [7, 12, 17, 22, 7, 12, 17, 22, 7, 12, 17, 22, 7, 12, 17, 22,
            5, 9, 14, 20, 5, 9, 14, 20, 5, 9, 14, 20, 5, 9, 14, 20,
            4, 11, 16, 23, 4, 11, 16, 23, 4, 11, 16, 23, 4, 11, 16, 23,
            6, 10, 15, 21, 6, 10, 15, 21, 6, 10, 15, 21, 6, 10, 15, 21]"

type_synonym md5_state = "32 word \<times> 32 word \<times> 32 word \<times> 32 word"

definition md5_round :: "32 word list \<Rightarrow> md5_state \<Rightarrow> nat \<Rightarrow> md5_state" where
  "md5_round m st i = (case st of (a, b, c, d) \<Rightarrow>
     (let (f, g) =
        (if i < 16 then ((b AND c) OR (NOT b AND d), i)
         else if i < 32 then ((d AND b) OR (NOT d AND c), (5 * i + 1) mod 16)
         else if i < 48 then (b XOR c XOR d, (3 * i + 5) mod 16)
         else (c XOR (b OR NOT d), (7 * i) mod 16));
        f' = f + a + md5_K ! i + m ! g
      in (d, b + word_rotl (md5_S ! i) f', b, c)))"

definition md5_block :: "md5_state \<Rightarrow> 32 word list \<Rightarrow> md5_state" where
  "md5_block st m = (case st of (a0, b0, c0, d0) \<Rightarrow>
     (case foldl (md5_round m) st [0..<64] of (a, b, c, d) \<Rightarrow>
        (a0 + a, b0 + b, c0 + c, d0 + d)))"

fun le_word32s :: "8 word list \<Rightarrow> 32 word list" where
  "le_word32s (b0 # b1 # b2 # b3 # bs) =
     (ucast b0 OR push_bit 8 (ucast b1) OR push_bit 16 (ucast b2) OR push_bit 24 (ucast b3))
       # le_word32s bs"
| "le_word32s _ = []"

definition le_bytes32 :: "32 word \<Rightarrow> 8 word list" where
  "le_bytes32 w = map (\<lambda>i. ucast (drop_bit (8 * i) w)) [0..<4]"

definition le_bytes64 :: "64 word \<Rightarrow> 8 word list" where
  "le_bytes64 w = map (\<lambda>i. ucast (drop_bit (8 * i) w)) [0..<8]"

definition md5_pad :: "8 word list \<Rightarrow> 8 word list" where
  "md5_pad bs = (let n = length bs in
     bs @ [0x80] @ replicate ((119 - n mod 64) mod 64) 0 @ le_bytes64 (push_bit 3 (of_nat n)))"

fun md5_blocks :: "nat \<Rightarrow> md5_state \<Rightarrow> 32 word list \<Rightarrow> md5_state" where
  "md5_blocks 0 st ws = st"
| "md5_blocks (Suc k) st ws = md5_blocks k (md5_block st (take 16 ws)) (drop 16 ws)"

definition md5_Sum :: "string \<Rightarrow> 8 word list" where
  "md5_Sum s = (let ws = le_word32s (md5_pad (map (\<lambda>c. of_nat (of_char c)) s)) in
     (case md5_blocks (length ws div 16) (0x67452301, 0xefcdab89, 0x98badcfe, 0x10325476) ws of
        (a, b, c, d) \<Rightarrow> concat (map le_bytes32 [a, b, c, d])))"

definition hextable :: string where
  "hextable = ''0123456789abcdef''"

definition hex_EncodeToString :: "8 word list \<Rightarrow> string" where
  "hex_EncodeToString bs =
     concat (map (\<lambda>b. [hextable ! unat (drop_bit 4 b), hextable ! unat (b AND 0xf)]) bs)"

section \<open>The fmt verbs used by the key codec\<close>

text \<open>
  \<^verbatim>\<open>%d\<close> of an unsigned and of a signed integer: decimal digits, a leading minus sign
  for a negative value.
\<close>

fun fmt_d_uint :: "nat \<Rightarrow> string" where
  "fmt_d_uint n =
     (if n < 10 then [''0123456789'' ! n]
      else fmt_d_uint (n div 10) @ [''0123456789'' ! (n mod 10)])"

declare fmt_d_uint.simps [simp del]

definition fmt_d :: "int \<Rightarrow> string" where
  "fmt_d i = (if i < 0 then ''-'' @ fmt_d_uint (nat (- i)) else fmt_d_uint (nat i))"

text \<open>
  A Go pointer \<^verbatim>\<open>*T\<close>: nil, or an address together with the value stored there.
  \<^verbatim>\<open>ShouldBindJSON\<close> allocates a fresh cell for every pointer field present in the
  request body, so the address of a non-nil field belongs to the request, not to its content.
\<close>

datatype 'a ptr = NilPtr | Ptr "64 word" 'a

text \<open>
  The hexadecimal digits of an address as \<^verbatim>\<open>fmt0x64\<close> writes them after \<^verbatim>\<open>0x\<close>:
  lower case, no leading zeros, a single \<^verbatim>\<open>0\<close> for zero.
\<close>

definition fmt_x64 :: "64 word \<Rightarrow> string" where
  "fmt_x64 u =
     (let ds = dropWhile (\<lambda>c. c = CHR ''0'')
                 (map (\<lambda>i. hextable ! unat (drop_bit (4 * i) u AND 0xf)) (rev [0..<16]))
      in if ds = [] then ''0'' else ds)"

text \<open>
  \<^verbatim>\<open>%t\<close> applied to an argument of type \<^verbatim>\<open>*bool\<close>. The verb \<^verbatim>\<open>t\<close> is not
  defined for pointers: \<^verbatim>\<open>printValue\<close> reaches \<^verbatim>\<open>fmtPointer\<close>, whose default case is
  \<^verbatim>\<open>badVerb\<close>, which writes \<^verbatim>\<open>%!t(\<close>, the type \<^verbatim>\<open>*bool\<close>, \<^verbatim>\<open>=\<close>, the argument
  under \<^verbatim>\<open>%v\<close> and \<^verbatim>\<open>)\<close>. Under \<^verbatim>\<open>%v\<close> a pointer to a bool is written by
  \<^verbatim>\<open>fmtPointer\<close> again: \<^verbatim>\<open><nil>\<close> when the address is 0, the address in hexadecimal
  otherwise. The bool pointed to is never read.
\<close>

fun fmt_t_boolptr :: "bool ptr \<Rightarrow> string" where
  "fmt_t_boolptr NilPtr = ''%!t(*bool=<nil>)''"
| "fmt_t_boolptr (Ptr u b) =
     ''%!t(*bool='' @ (if u = 0 then ''<nil>'' else ''0x'' @ fmt_x64 u) @ '')''"

text \<open>
  \<^verbatim>\<open>%v\<close> of a \<^verbatim>\<open>pq.Int64Array\<close> (a named \<^verbatim>\<open>[]int64\<close> with no \<^verbatim>\<open>String\<close> or
  \<^verbatim>\<open>Format\<close> method): the elements in slice order under \<^verbatim>\<open>%v\<close>, separated by one
  space, between square brackets.
\<close>

fun join_sp :: "string list \<Rightarrow> string" where
  "join_sp [] = []"
| "join_sp [x] = x"
| "join_sp (x # y # ys) = x @ '' '' @ join_sp (y # ys)"

definition fmt_v_int64s :: "int list \<Rightarrow> string" where
  "fmt_v_int64s xs = ''['' @ join_sp (map fmt_d xs) @ '']''"

section \<open>Data model\<close>

text \<open>
  \<^verbatim>\<open>models.SearchFilter\<close>. \<open>'t\<close> stands for \<^verbatim>\<open>time.Time\<close> and \<open>'f\<close> for the
  floating-point types \<^verbatim>\<open>float32\<close> and \<^verbatim>\<open>float64\<close>; both stay abstract, and the two
  renderings the code applies to them (\<^verbatim>\<open>Time.String()\<close> and the verb \<^verbatim>\<open>%f\<close>) are
  parameters \<open>tstr\<close> and \<open>fstr\<close> of every function that formats a filter.
\<close>

record ('t, 'f) SearchFilter =
  Location :: string
  City :: string
  CheckinDate :: 't
  CheckoutDate :: 't
  NumberOfGuests :: int
  PetFriendly :: "bool ptr"
  SmokingFriendly :: "bool ptr"
  AmenityIDs :: "int list"
  ConditionIDs :: "int list"
  MinRating :: 'f
  MaxPrice :: 'f
  MinPrice :: 'f
  Latitude :: "'f ptr"
  Longitude :: "'f ptr"
  RadiusKm :: 'f
  SortBy :: string
  Page :: int
  Limit :: int

text \<open>
  \<^verbatim>\<open>models.SearchResultsCache\<close>. \<open>'r\<close> is \<^verbatim>\<open>models.SearchResult\<close>, which the cache
  layer only stores and returns. The two timestamps are instants in nanoseconds.
\<close>

record 'r SearchResultsCache =
  Results :: "'r list"
  Total :: int
  CachePage :: int
  CacheLimit :: int
  UpdatedAt :: int
  ExpiresAt :: int

text \<open>\<^verbatim>\<open>models.Event\<close>, a row of the table \<^verbatim>\<open>events\<close>; \<open>Data\<close> is the JSON snapshot.\<close>

record Event =
  ID :: nat
  EventType :: string
  TableName :: string
  RecordID :: nat
  Data :: string
  CreatedAt :: int
  Processed :: bool

section \<open>Key codec\<close>

text \<open>
  The string \<^verbatim>\<open>hashStr\<close> that \<^verbatim>\<open>generateSearchCacheKey\<close> builds with
  \<^verbatim>\<open>fmt.Sprintf("%s:%s:%s:%s:%d:%t:%t:%v:%v:%f:%f:%f:%f:%s:%d:%d", ...)\<close>.
  \<open>Latitude\<close> and \<open>Longitude\<close> are not among the arguments.
\<close>

definition hashStr ::
  "('t \<Rightarrow> string) \<Rightarrow> ('f \<Rightarrow> string) \<Rightarrow> ('t, 'f) SearchFilter \<Rightarrow> string" where
  "hashStr tstr fstr flt =
     Location flt @ '':'' @
     City flt @ '':'' @
     tstr (CheckinDate flt) @ '':'' @
     tstr (CheckoutDate flt) @ '':'' @
     fmt_d (NumberOfGuests flt) @ '':'' @
     fmt_t_boolptr (PetFriendly flt) @ '':'' @
     fmt_t_boolptr (SmokingFriendly flt) @ '':'' @
     fmt_v_int64s (AmenityIDs flt) @ '':'' @
     fmt_v_int64s (ConditionIDs flt) @ '':'' @
     fstr (MinRating flt) @ '':'' @
     fstr (MaxPrice flt) @ '':'' @
     fstr (MinPrice flt) @ '':'' @
     fstr (RadiusKm flt) @ '':'' @
     SortBy flt @ '':'' @
     fmt_d (Page flt) @ '':'' @
     fmt_d (Limit flt)"

definition generateSearchCacheKey ::
  "('t \<Rightarrow> string) \<Rightarrow> ('f \<Rightarrow> string) \<Rightarrow> ('t, 'f) SearchFilter \<Rightarrow> string" where
  "generateSearchCacheKey tstr fstr flt =
     ''search:'' @ hex_EncodeToString (md5_Sum (hashStr tstr fstr flt))"

text \<open>
  The pagination check at the head of \<^verbatim>\<open>SearchProperties\<close> (\<^verbatim>\<open>// Validate pagination\<close>):
  two assignments in sequence.
\<close>

definition validatePagination :: "('t, 'f) SearchFilter \<Rightarrow> ('t, 'f) SearchFilter" where
  "validatePagination flt =
     (let f1 = (if Page flt < 1 then flt\<lparr>Page := 1\<rparr> else flt)
      in if Limit f1 < 1 \<or> Limit f1 > 100 then f1\<lparr>Limit := 20\<rparr> else f1)"

section \<open>The cache backend\<close>

text \<open>
  The state of the Redis database behind \<^verbatim>\<open>redis.Client\<close>: the keys that are physically
  present, each with its payload and the time to live given when it was written (\<open>None\<close>:
  no expiry), and a fault schedule. Every command sent to the backend consumes the head of
  the schedule and fails with \<open>RedisError\<close> when it is \<open>True\<close>; an empty schedule is a
  backend that answers every command. Eviction by the backend is not a step of the model: a
  key is in \<open>kv\<close> for as long as the backend has not removed it.
\<close>

record entry =
  payload :: string
  ttl :: "int option"

record redis =
  kv :: "(string \<times> entry) list"
  faults :: "bool list"

definition next_fault :: "redis \<Rightarrow> bool \<times> redis" where
  "next_fault rc = (case faults rc of [] \<Rightarrow> (False, rc) | b # bs \<Rightarrow> (b, rc\<lparr>faults := bs\<rparr>))"


text \<open>\<^verbatim>\<open>client.Get(ctx, key).Result()\<close>: \<^verbatim>\<open>redis.Nil\<close> when the key is absent.\<close>

definition redis_Get :: "redis \<Rightarrow> string \<Rightarrow> (error + string) \<times> redis" where
  "redis_Get rc key =
     (let (failed, rc') = next_fault rc in
      if failed then (Inl RedisError, rc')
      else (case map_of (kv rc') key of
              None \<Rightarrow> (Inl RedisNil, rc')
            | Some e \<Rightarrow> (Inr (payload e), rc')))"

text \<open>
  \<^verbatim>\<open>client.Set(ctx, key, value, expiration).Err()\<close>. go-redis sends \<^verbatim>\<open>PX\<close>/\<^verbatim>\<open>EX\<close> only
  when \<^verbatim>\<open>expiration > 0\<close>, \<^verbatim>\<open>KEEPTTL\<close> when it is \<^verbatim>\<open>KeepTTL\<close> (the duration -1),
  and a plain \<^verbatim>\<open>SET\<close>, which stores the value without expiry, for every other value.
\<close>

definition KeepTTL :: int where
  "KeepTTL = - 1"

definition redis_Set :: "redis \<Rightarrow> string \<Rightarrow> string \<Rightarrow> int \<Rightarrow> error option \<times> redis" where
  "redis_Set rc key val expiration =
     (let (failed, rc') = next_fault rc in
      if failed then (Some RedisError, rc')
      else
        (let t = (if expiration > 0 then Some expiration
                  else if expiration = KeepTTL
                       then (case map_of (kv rc') key of None \<Rightarrow> None | Some e \<Rightarrow> ttl e)
                       else None)
         in (None, rc'\<lparr>kv := (key, \<lparr>payload = val, ttl = t\<rparr>)
                                 # filter (\<lambda>(k, e). k \<noteq> key) (kv rc')\<rparr>)))"

text \<open>\<^verbatim>\<open>client.Del(ctx, keys...).Err()\<close>: absent keys are ignored.\<close>

definition redis_Del :: "redis \<Rightarrow> string list \<Rightarrow> error option \<times> redis" where
  "redis_Del rc keys =
     (let (failed, rc') = next_fault rc in
      if failed then (Some RedisError, rc')
      else (None, rc'\<lparr>kv := filter (\<lambda>(k, e). k \<notin> set keys) (kv rc')\<rparr>))"


section \<open>encoding/json\<close>

text \<open>
  \<^verbatim>\<open>json.Marshal\<close> and \<^verbatim>\<open>json.Unmarshal\<close> at the types the cache layer and the relay
  use them at, as parameters. \<open>'p\<close> is \<^verbatim>\<open>models.Property\<close>. Of a decoded
  \<^verbatim>\<open>models.Availability\<close> or \<^verbatim>\<open>models.Pricing\<close> the relay reads the field
  \<^verbatim>\<open>PropertyID\<close> only, so the two decoders return that field.
\<close>

record ('p, 'r) json =
  marshalProperty :: "'p \<Rightarrow> error + string"
  unmarshalProperty :: "string \<Rightarrow> error + 'p"
  marshalSearchResultsCache :: "'r SearchResultsCache \<Rightarrow> error + string"
  unmarshalSearchResultsCache :: "string \<Rightarrow> error + 'r SearchResultsCache"
  unmarshalAvailability :: "string \<Rightarrow> error + nat"
  unmarshalPricing :: "string \<Rightarrow> error + nat"

section \<open>Cache store adapter (package cache)\<close>

text \<open>
  Every function takes the backend state and returns it updated. A Go result
  \<^verbatim>\<open>(*T, error)\<close> is \<open>Inl err\<close> for \<^verbatim>\<open>(nil, err)\<close>, \<open>Inr None\<close> for
  \<^verbatim>\<open>(nil, nil)\<close> (a miss) and \<open>Inr (Some v)\<close> for a hit; a result \<^verbatim>\<open>error\<close> is
  \<open>None\<close> for \<^verbatim>\<open>nil\<close>. \<open>now\<close> is the reading of \<^verbatim>\<open>time.Now()\<close> during the call,
  in nanoseconds; durations are in nanoseconds too.
\<close>

definition GetSearchResultsCache ::
  "('p, 'r) json \<Rightarrow> int \<Rightarrow> redis \<Rightarrow> string \<Rightarrow> (error + 'r SearchResultsCache option) \<times> redis" where
  "GetSearchResultsCache j now rc cacheKey =
     (let (got, rc1) = redis_Get rc cacheKey in
      case got of
        Inl err \<Rightarrow> (if err = RedisNil then (Inr None, rc1) else (Inl err, rc1))
      | Inr val \<Rightarrow>
          (case unmarshalSearchResultsCache j val of
             Inl err \<Rightarrow> (Inl err, rc1)
           | Inr results \<Rightarrow>
               if ExpiresAt results < now
               then (let (ignored, rc2) = redis_Del rc1 [cacheKey] in (Inr None, rc2))
               else (Inr (Some results), rc1)))"

definition SetSearchResultsCache ::
  "('p, 'r) json \<Rightarrow> int \<Rightarrow> redis \<Rightarrow> string \<Rightarrow> 'r SearchResultsCache \<Rightarrow> int
     \<Rightarrow> error option \<times> redis" where
  "SetSearchResultsCache j now rc cacheKey results t =
     (let results' = results\<lparr>UpdatedAt := now, ExpiresAt := now + t\<rparr> in
      case marshalSearchResultsCache j results' of
        Inl err \<Rightarrow> (Some err, rc)
      | Inr data \<Rightarrow> redis_Set rc cacheKey data t)"




definition propertyKey :: "nat \<Rightarrow> string" where
  "propertyKey propertyID = ''property:'' @ fmt_d_uint propertyID"

definition GetPropertyCache ::
  "('p, 'r) json \<Rightarrow> redis \<Rightarrow> nat \<Rightarrow> (error + 'p option) \<times> redis" where
  "GetPropertyCache j rc propertyID =
     (let (got, rc1) = redis_Get rc (propertyKey propertyID) in
      case got of
        Inl err \<Rightarrow> (if err = RedisNil then (Inr None, rc1) else (Inl err, rc1))
      | Inr val \<Rightarrow>
          (case unmarshalProperty j val of
             Inl err \<Rightarrow> (Inl err, rc1)
           | Inr property \<Rightarrow> (Inr (Some property), rc1)))"

definition SetPropertyCache ::
  "('p, 'r) json \<Rightarrow> redis \<Rightarrow> nat \<Rightarrow> 'p \<Rightarrow> int \<Rightarrow> error option \<times> redis" where
  "SetPropertyCache j rc propertyID property t =
     (case marshalProperty j property of
        Inl err \<Rightarrow> (Some err, rc)
      | Inr data \<Rightarrow> redis_Set rc (propertyKey propertyID) data t)"






section \<open>Request handlers (package handlers)\<close>

text \<open>
  What a handler writes with \<^verbatim>\<open>c.JSON\<close>: an error status with its message, the body
  of a property lookup (\<^verbatim>\<open>data\<close>, \<^verbatim>\<open>cached\<close>) or the body of a search
  (\<^verbatim>\<open>data\<close>, \<^verbatim>\<open>total\<close>, \<^verbatim>\<open>page\<close>, \<^verbatim>\<open>limit\<close>, \<^verbatim>\<open>cached\<close>, and
  \<^verbatim>\<open>cache_age\<close> on a hit, kept as the duration \<^verbatim>\<open>time.Since(UpdatedAt)\<close> in
  nanoseconds).
\<close>

datatype ('p, 'r) response =
    Failure nat string
  | PropertyOK 'p bool
  | SearchOK "'r list" int int int bool "int option"

definition Minute :: int where
  "Minute = 60 * 1000000000"

definition Hour :: int where
  "Hour = 60 * Minute"

text \<open>The zero \<^verbatim>\<open>time.Time\<close> (1 January of year 1, UTC) as an instant.\<close>

definition zeroTime :: int where
  "zeroTime = - 62135596800 * 1000000000"

text \<open>
  \<^verbatim>\<open>SearchProperties\<close>. \<open>bound\<close> is the outcome of \<^verbatim>\<open>c.ShouldBindJSON(&filter)\<close>:
  the error's text or the filter. \<open>dbSearch\<close> is \<^verbatim>\<open>propertyRepo.SearchProperties\<close>
  on the current Data Store and \<open>convert\<close> is \<^verbatim>\<open>convertPropertiesToSearchResults\<close>.
  The result is the response, the backend state and the log.
\<close>

definition SearchProperties ::
  "('t \<Rightarrow> string) \<Rightarrow> ('f \<Rightarrow> string) \<Rightarrow> ('p, 'r) json
     \<Rightarrow> (('t, 'f) SearchFilter \<Rightarrow> error + 'p list \<times> int)
     \<Rightarrow> ('p list \<Rightarrow> ('t, 'f) SearchFilter \<Rightarrow> 'r list)
     \<Rightarrow> int \<Rightarrow> redis \<Rightarrow> string + ('t, 'f) SearchFilter
     \<Rightarrow> ('p, 'r) response \<times> redis \<times> logline list" where
  "SearchProperties tstr fstr j dbSearch convert now rc bound =
     (case bound of
        Inl msg \<Rightarrow> (Failure 400 msg, rc, [])
      | Inr flt0 \<Rightarrow>
          (let flt = validatePagination flt0;
               cacheKey = generateSearchCacheKey tstr fstr flt;
               log1 = [(''Cache key: %s'', [S cacheKey])];
               (got, rc1) = GetSearchResultsCache j now rc cacheKey;
               log2 = log1 @ (case got of
                                Inl err \<Rightarrow> [(''Cache retrieval error: %v'', [E err])]
                              | Inr r \<Rightarrow> [])
           in case (case got of Inl err \<Rightarrow> None | Inr r \<Rightarrow> r) of
                Some cachedResults \<Rightarrow>
                  (SearchOK (Results cachedResults) (Total cachedResults)
                     (CachePage cachedResults) (CacheLimit cachedResults) True
                     (Some (now - UpdatedAt cachedResults)),
                   rc1,
                   log2 @ [(''Cache HIT for search results'', [])])
              | None \<Rightarrow>
                  (let log3 = log2 @ [(''Cache MISS for search results, fetching from database'', [])]
                   in case dbSearch flt of
                        Inl err \<Rightarrow>
                          (Failure 500 ''Failed to search properties'', rc1,
                           log3 @ [(''Database search error: %v'', [E err])])
                      | Inr (properties, count) \<Rightarrow>
                          (let results = convert properties flt;
                               cacheResults = \<lparr>Results = results, Total = count,
                                               CachePage = Page flt, CacheLimit = Limit flt,
                                               UpdatedAt = zeroTime, ExpiresAt = zeroTime\<rparr>;
                               (serr, rc2) = SetSearchResultsCache j now rc1 cacheKey
                                               cacheResults (5 * Minute)
                           in (SearchOK results count (Page flt) (Limit flt) False None,
                               rc2,
                               log3 @ (case serr of
                                         Some err \<Rightarrow> [(''Failed to cache search results: %v'', [E err])]
                                       | None \<Rightarrow> []))))))"

text \<open>
  \<^verbatim>\<open>strconv.ParseUint(s, 10, 32)\<close>: a non-empty run of decimal digits with a value below
  \<open>2 ^ 32\<close>; no sign, no underscore.
\<close>

definition digitVal :: "char \<Rightarrow> nat" where
  "digitVal c = of_char c - 48"

definition isDigit :: "char \<Rightarrow> bool" where
  "isDigit c = (48 \<le> (of_char c :: nat) \<and> (of_char c :: nat) \<le> 57)"

definition ParseUint32 :: "string \<Rightarrow> nat option" where
  "ParseUint32 s =
     (if s = [] \<or> \<not> list_all isDigit s then None
      else (let v = foldl (\<lambda>a c. 10 * a + digitVal c) 0 s
            in if v < 2 ^ 32 then Some v else None))"

text \<open>
  \<^verbatim>\<open>GetProperty\<close>. \<open>idParam\<close> is \<^verbatim>\<open>c.Param("id")\<close> and \<open>dbGet\<close> is
  \<^verbatim>\<open>propertyRepo.GetPropertyByID\<close> on the current Data Store.
\<close>

definition GetProperty ::
  "('p, 'r) json \<Rightarrow> (nat \<Rightarrow> error + 'p) \<Rightarrow> redis \<Rightarrow> string
     \<Rightarrow> ('p, 'r) response \<times> redis \<times> logline list" where
  "GetProperty j dbGet rc idParam =
     (case ParseUint32 idParam of
        None \<Rightarrow> (Failure 400 ''Invalid property ID'', rc, [])
      | Some propertyID \<Rightarrow>
          (let (got, rc1) = GetPropertyCache j rc propertyID;
               log1 = (case got of
                         Inl err \<Rightarrow> [(''Cache retrieval error: %v'', [E err])]
                       | Inr r \<Rightarrow> [])
           in case (case got of Inl err \<Rightarrow> None | Inr r \<Rightarrow> r) of
                Some cachedProperty \<Rightarrow>
                  (PropertyOK cachedProperty True, rc1, log1 @ [(''Cache HIT for property'', [])])
              | None \<Rightarrow>
                  (let log2 = log1 @ [(''Cache MISS for property, fetching from database'', [])]
                   in case dbGet propertyID of
                        Inl err \<Rightarrow>
                          (if err = ErrRecordNotFound
                           then (Failure 404 ''Property not found'', rc1, log2)
                           else (Failure 500 ''Failed to retrieve property'', rc1, log2))
                      | Inr property \<Rightarrow>
                          (let (serr, rc2) = SetPropertyCache j rc1 propertyID property (1 * Hour)
                           in (PropertyOK property False, rc2,
                               log2 @ (case serr of
                                         Some err \<Rightarrow> [(''Failed to cache property: %v'', [E err])]
                                       | None \<Rightarrow> []))))))"

section \<open>Event repository (package database)\<close>

text \<open>
  The table \<^verbatim>\<open>events\<close>: its rows in the order in which the store returns them to a
  query that has no \<^verbatim>\<open>ORDER BY\<close>, and a fault schedule read as the one of the cache
  backend.
\<close>

record eventdb =
  events :: "Event list"
  db_faults :: "bool list"

definition db_next_fault :: "eventdb \<Rightarrow> bool \<times> eventdb" where
  "db_next_fault db =
     (case db_faults db of [] \<Rightarrow> (False, db) | b # bs \<Rightarrow> (b, db\<lparr>db_faults := bs\<rparr>))"

text \<open>
  \<^verbatim>\<open>db.Where("processed = ?", false).Limit(limit).Find(&events)\<close>. The only caller
  passes the limit 100.
\<close>

definition GetUnprocessedEvents :: "eventdb \<Rightarrow> nat \<Rightarrow> (error + Event list) \<times> eventdb" where
  "GetUnprocessedEvents db limit =
     (let (failed, db') = db_next_fault db in
      if failed then (Inl DBError, db')
      else (Inr (take limit (filter (\<lambda>e. Processed e = False) (events db'))), db'))"


section \<open>Change-event relay (EventListener)\<close>













section \<open>Concrete values on which the model is run\<close>

text \<open>
  A stand-in for \<^verbatim>\<open>encoding/json\<close>: a property is its own payload, the payload
  \<^verbatim>\<open>corrupt\<close> decodes at no type, every other search payload decodes to a page of one
  result that expires at instant 100, and the snapshot of an availability or pricing row is
  the decimal id of its property.
\<close>

definition stub_json :: "(string, string) json" where
  "stub_json =
     \<lparr>marshalProperty = Inr,
      unmarshalProperty = (\<lambda>s. if s = ''corrupt'' then Inl JSONError else Inr s),
      marshalSearchResultsCache = (\<lambda>r. Inr (concat (Results r))),
      unmarshalSearchResultsCache =
        (\<lambda>s. if s = ''corrupt'' then Inl JSONError
             else Inr \<lparr>Results = [s], Total = 1, CachePage = 1, CacheLimit = 20,
                       UpdatedAt = 0, ExpiresAt = 100\<rparr>),
      unmarshalAvailability =
        (\<lambda>s. case ParseUint32 s of None \<Rightarrow> Inl JSONError | Some n \<Rightarrow> Inr n),
      unmarshalPricing =
        (\<lambda>s. case ParseUint32 s of None \<Rightarrow> Inl JSONError | Some n \<Rightarrow> Inr n)\<rparr>"

text \<open>An unprocessed \<^verbatim>\<open>UPDATE\<close> event with the given id, table and record id.\<close>

definition mkEvent :: "nat \<Rightarrow> string \<Rightarrow> nat \<Rightarrow> Event" where
  "mkEvent i tbl r = \<lparr>ID = i, EventType = ''UPDATE'', TableName = tbl, RecordID = r,
                      Data = [], CreatedAt = 0, Processed = False\<rparr>"

text \<open>
  The filter of a request with an empty body: every field has its zero value. \<open>unit\<close>
  stands for the zero \<^verbatim>\<open>time.Time\<close>, which \<^verbatim>\<open>String()\<close> renders as below, and for
  the float 0, which \<^verbatim>\<open>%f\<close> renders as \<^verbatim>\<open>0.000000\<close>.
\<close>

definition zero_tstr :: "unit \<Rightarrow> string" where
  "zero_tstr t = ''0001-01-01 00:00:00 +0000 UTC''"

definition zero_fstr :: "unit \<Rightarrow> string" where
  "zero_fstr x = ''0.000000''"

definition zeroFilter :: "(unit, unit) SearchFilter" where
  "zeroFilter =
     \<lparr>Location = [], City = [], CheckinDate = (), CheckoutDate = (), NumberOfGuests = 0,
      PetFriendly = NilPtr, SmokingFriendly = NilPtr, AmenityIDs = [], ConditionIDs = [],
      MinRating = (), MaxPrice = (), MinPrice = (), Latitude = NilPtr, Longitude = NilPtr,
      RadiusKm = (), SortBy = [], Page = 0, Limit = 0\<rparr>"

text \<open>A Data Store that holds the property 42 and answers every search with two rows.\<close>

definition stub_dbGet :: "nat \<Rightarrow> error + string" where
  "stub_dbGet propertyID = (if propertyID = 42 then Inr ''p42'' else Inl ErrRecordNotFound)"

definition stub_dbSearch :: "(unit, unit) SearchFilter \<Rightarrow> error + string list \<times> int" where
  "stub_dbSearch flt = Inr ([''p1'', ''p2''], 2)"

definition stub_convert :: "string list \<Rightarrow> (unit, unit) SearchFilter \<Rightarrow> string list" where
  "stub_convert properties flt = properties"

section \<open>The relay's fetch\<close>

lemma next_fault_kv [simp]: "kv (snd (next_fault rc)) = kv rc"
  by (simp add: next_fault_def split: list.splits)

text \<open>
  C2, as the code has it. A fetch that succeeds returns at most \<open>n\<close> events (the relay
  passes 100), all of them unprocessed: the first \<open>n\<close> unprocessed rows in the order in
  which the store returns them. The query has no \<^verbatim>\<open>ORDER BY\<close>, so nothing orders the
  batch by id.
\<close>

theorem GetUnprocessedEvents_batch:
  assumes "GetUnprocessedEvents db n = (Inr evs, db')"
  shows "length evs \<le> n \<and> (\<forall>e \<in> set evs. \<not> Processed e)
         \<and> evs = take n (filter (\<lambda>e. \<not> Processed e) (events db))"
proof -
  from assms have evs: "evs = take n (filter (\<lambda>e. \<not> Processed e) (events db))"
    by (auto simp: GetUnprocessedEvents_def db_next_fault_def
             split: list.splits if_splits prod.splits)
  have un: "\<forall>e \<in> set evs. \<not> Processed e"
    unfolding evs by (auto dest: in_set_takeD)
  have len: "length evs \<le> n"
    unfolding evs by simp
  from len un evs show ?thesis by blast
qed

theorem GetUnprocessedEvents_batch_witness:
  "GetUnprocessedEvents
     \<lparr>events = [mkEvent 2 ''properties'' 42, mkEvent 1 ''properties'' 7], db_faults = []\<rparr> 100
     = (Inr [mkEvent 2 ''properties'' 42, mkEvent 1 ''properties'' 7],
        \<lparr>events = [mkEvent 2 ''properties'' 42, mkEvent 1 ''properties'' 7], db_faults = []\<rparr>)
   \<and> length [mkEvent 2 ''properties'' 42, mkEvent 1 ''properties'' 7] \<le> (100::nat)"
  using GetUnprocessedEvents_batch
    [of "\<lparr>events = [mkEvent 2 ''properties'' 42, mkEvent 1 ''properties'' 7], db_faults = []\<rparr>"
        100 "[mkEvent 2 ''properties'' 42, mkEvent 1 ''properties'' 7]"
        "\<lparr>events = [mkEvent 2 ''properties'' 42, mkEvent 1 ''properties'' 7], db_faults = []\<rparr>"]
  by (simp add: GetUnprocessedEvents_def db_next_fault_def mkEvent_def)

text \<open>
  C2 as stated fails: when the store returns the row with id 2 before the row with id 1, the
  batch is not in ascending order of id.
\<close>

theorem GetUnprocessedEvents_not_ordered:
  "fst (GetUnprocessedEvents
          \<lparr>events = [mkEvent 2 ''properties'' 42, mkEvent 1 ''properties'' 7],
           db_faults = []\<rparr> 100)
     = Inr [mkEvent 2 ''properties'' 42, mkEvent 1 ''properties'' 7]
   \<and> \<not> sorted (map ID [mkEvent 2 ''properties'' 42, mkEvent 1 ''properties'' 7])"
  by (simp add: GetUnprocessedEvents_def db_next_fault_def mkEvent_def)

section \<open>Backend commands\<close>

lemma next_fault_faults [simp]: "faults (snd (next_fault rc)) = tl (faults rc)"
  by (simp add: next_fault_def split: list.splits)


lemma redis_Get_eq:
  "redis_Get rc key =
     (if fst (next_fault rc) then Inl RedisError
      else (case map_of (kv rc) key of None \<Rightarrow> Inl RedisNil | Some e \<Rightarrow> Inr (payload e)),
      snd (next_fault rc))"
proof (cases "next_fault rc")
  case (Pair failed rc')
  with next_fault_kv [of rc] show ?thesis
    by (simp add: redis_Get_def split: option.splits)
qed

lemma redis_Del_eq:
  "redis_Del rc keys =
     (if fst (next_fault rc) then (Some RedisError, snd (next_fault rc))
      else (None, (snd (next_fault rc))\<lparr>kv := filter (\<lambda>(k, e). k \<notin> set keys) (kv rc)\<rparr>))"
proof (cases "next_fault rc")
  case (Pair failed rc')
  with next_fault_kv [of rc] show ?thesis
    by (simp add: redis_Del_def)
qed


lemma redis_Set_eq:
  "redis_Set rc key val expiration =
     (if fst (next_fault rc) then (Some RedisError, snd (next_fault rc))
      else (None, (snd (next_fault rc))
              \<lparr>kv := (key, \<lparr>payload = val,
                             ttl = (if expiration > 0 then Some expiration
                                    else if expiration = KeepTTL
                                         then (case map_of (kv rc) key of
                                                 None \<Rightarrow> None | Some e \<Rightarrow> ttl e)
                                         else None)\<rparr>)
                      # filter (\<lambda>(k, e). k \<noteq> key) (kv rc)\<rparr>))"
proof (cases "next_fault rc")
  case (Pair failed rc')
  with next_fault_kv [of rc] show ?thesis
    by (simp add: redis_Set_def)
qed

lemma map_of_filter_out:
  "map_of (filter (\<lambda>(k, e). k \<notin> set keys) xs) key =
     (if key \<in> set keys then None else map_of xs key)"
  by (induction xs) auto

lemma map_of_filter_neq:
  "map_of (filter (\<lambda>(k, e). k \<noteq> key) xs) key' =
     (if key' = key then None else map_of xs key')"
  by (induction xs) auto

section \<open>Cached views\<close>

text \<open>
  C5. A search-result entry that is physically present and decodes, read at an instant later
  than its \<^verbatim>\<open>expires_at\<close>, is reported as a miss whenever the backend answers the
  \<^verbatim>\<open>GET\<close>; and the key is gone afterwards when the backend also answers the \<^verbatim>\<open>DEL\<close>
  the function then sends.
\<close>

theorem GetSearchResultsCache_expired:
  assumes "\<not> fst (next_fault rc)"
    and "map_of (kv rc) cacheKey = Some e"
    and "unmarshalSearchResultsCache j (payload e) = Inr results"
    and "ExpiresAt results < now"
  shows "fst (GetSearchResultsCache j now rc cacheKey) = Inr None
         \<and> (\<not> fst (next_fault (snd (next_fault rc)))
              \<longrightarrow> map_of (kv (snd (GetSearchResultsCache j now rc cacheKey))) cacheKey = None)"
  using assms
  by (simp add: GetSearchResultsCache_def redis_Get_eq redis_Del_eq map_of_filter_neq)

theorem GetSearchResultsCache_expired_witness:
  "fst (GetSearchResultsCache stub_json 101
          \<lparr>kv = [(''search:abc'', \<lparr>payload = ''x'', ttl = Some (5 * Minute)\<rparr>)], faults = []\<rparr>
          ''search:abc'') = Inr None
   \<and> kv (snd (GetSearchResultsCache stub_json 101
          \<lparr>kv = [(''search:abc'', \<lparr>payload = ''x'', ttl = Some (5 * Minute)\<rparr>)], faults = []\<rparr>
          ''search:abc'')) = []"
  using GetSearchResultsCache_expired
    [of "\<lparr>kv = [(''search:abc'', \<lparr>payload = ''x'', ttl = Some (5 * Minute)\<rparr>)], faults = []\<rparr>"
        "''search:abc''" "\<lparr>payload = ''x'', ttl = Some (5 * Minute)\<rparr>" stub_json
        "\<lparr>Results = [''x''], Total = 1, CachePage = 1, CacheLimit = 20,
          UpdatedAt = 0, ExpiresAt = 100\<rparr>" 101]
  by (simp add: GetSearchResultsCache_def redis_Get_def redis_Del_def next_fault_def
                stub_json_def)

text \<open>
  C6, as the code has it. The \<^verbatim>\<open>Set*\<close> functions hand the time to live to the client
  unchecked. With \<open>t \<le> 0\<close>, when the value serialises and the backend answers, the call
  returns \<^verbatim>\<open>nil\<close> and the value is stored under the key: without expiry, or with the
  expiry the key already had when \<open>t\<close> is \<open>KeepTTL\<close>.
\<close>

theorem Set_nonpositive_ttl_is_stored:
  assumes "t \<le> 0"
    and "\<not> fst (next_fault rc)"
    and "marshalProperty j property = Inr data"
    and "marshalSearchResultsCache j (results\<lparr>UpdatedAt := now, ExpiresAt := now + t\<rparr>) = Inr data'"
  shows "fst (SetPropertyCache j rc propertyID property t) = None
       \<and> map_of (kv (snd (SetPropertyCache j rc propertyID property t))) (propertyKey propertyID)
           = Some \<lparr>payload = data,
                   ttl = (if t = KeepTTL
                          then (case map_of (kv rc) (propertyKey propertyID) of
                                  None \<Rightarrow> None | Some e \<Rightarrow> ttl e)
                          else None)\<rparr>
       \<and> fst (SetSearchResultsCache j now rc cacheKey results t) = None
       \<and> map_of (kv (snd (SetSearchResultsCache j now rc cacheKey results t))) cacheKey
           = Some \<lparr>payload = data',
                   ttl = (if t = KeepTTL
                          then (case map_of (kv rc) cacheKey of None \<Rightarrow> None | Some e \<Rightarrow> ttl e)
                          else None)\<rparr>"
  using assms
  by (simp add: SetPropertyCache_def SetSearchResultsCache_def redis_Set_eq)

theorem Set_nonpositive_ttl_is_stored_witness:
  "(0::int) \<le> 0
   \<and> fst (SetPropertyCache stub_json \<lparr>kv = [], faults = []\<rparr> 42 ''p42'' 0) = None
   \<and> map_of (kv (snd (SetPropertyCache stub_json \<lparr>kv = [], faults = []\<rparr> 42 ''p42'' 0)))
        (propertyKey 42) = Some \<lparr>payload = ''p42'', ttl = None\<rparr>"
  using Set_nonpositive_ttl_is_stored
    [where t = 0 and rc = "\<lparr>kv = [], faults = []\<rparr>" and j = stub_json
       and property = "''p42''" and data = "''p42''" and propertyID = 42
       and results = "\<lparr>Results = [''x''], Total = 1, CachePage = 1, CacheLimit = 20,
                        UpdatedAt = 0, ExpiresAt = 0\<rparr>"
       and now = 7 and data' = "''x''" and cacheKey = "''search:abc''"]
  by (simp add: next_fault_def stub_json_def KeepTTL_def)

text \<open>
  C6 as stated fails: \<^verbatim>\<open>SetPropertyCache\<close> with a time to live of 0 on an empty,
  healthy backend returns \<^verbatim>\<open>nil\<close> and leaves the value stored without expiry.
\<close>

theorem Set_zero_ttl_accepted:
  "SetPropertyCache stub_json \<lparr>kv = [], faults = []\<rparr> 42 ''p42'' 0
     = (None, \<lparr>kv = [(''property:42'', \<lparr>payload = ''p42'', ttl = None\<rparr>)], faults = []\<rparr>)"
  by (simp add: SetPropertyCache_def redis_Set_eq next_fault_def stub_json_def propertyKey_def
                fmt_d_uint.simps KeepTTL_def)




section \<open>Read path\<close>

lemma SearchProperties_no_hit:
  assumes "\<forall>c. fst (GetSearchResultsCache j now rc
                       (generateSearchCacheKey tstr fstr (validatePagination flt))) \<noteq> Inr (Some c)"
  shows "fst (SearchProperties tstr fstr j dbSearch convert now rc (Inr flt)) =
           (case dbSearch (validatePagination flt) of
              Inl err \<Rightarrow> Failure 500 ''Failed to search properties''
            | Inr (properties, n) \<Rightarrow>
                SearchOK (convert properties (validatePagination flt)) n
                  (Page (validatePagination flt)) (Limit (validatePagination flt)) False None)"
proof -
  obtain got rc1 where g: "GetSearchResultsCache j now rc
        (generateSearchCacheKey tstr fstr (validatePagination flt)) = (got, rc1)"
    by (cases "GetSearchResultsCache j now rc
        (generateSearchCacheKey tstr fstr (validatePagination flt))")
  with assms have nohit: "(case got of Inl err \<Rightarrow> None | Inr r \<Rightarrow> r) = None"
    by (cases got) auto
  show ?thesis
    using g nohit
    by (simp add: SearchProperties_def Let_def split: sum.splits prod.splits)
qed

lemma SearchProperties_hit:
  assumes "fst (GetSearchResultsCache j now rc
                  (generateSearchCacheKey tstr fstr (validatePagination flt))) = Inr (Some c)"
  shows "fst (SearchProperties tstr fstr j dbSearch convert now rc (Inr flt)) =
           SearchOK (Results c) (Total c) (CachePage c) (CacheLimit c) True
             (Some (now - UpdatedAt c))"
proof -
  obtain got rc1 where g: "GetSearchResultsCache j now rc
        (generateSearchCacheKey tstr fstr (validatePagination flt)) = (got, rc1)"
    by (cases "GetSearchResultsCache j now rc
        (generateSearchCacheKey tstr fstr (validatePagination flt))")
  with assms have "got = Inr (Some c)" by simp
  with g show ?thesis
    by (simp add: SearchProperties_def Let_def)
qed

lemma GetProperty_no_hit:
  assumes "\<forall>p. fst (GetPropertyCache j rc propertyID) \<noteq> Inr (Some p)"
    and "ParseUint32 idParam = Some propertyID"
  shows "fst (GetProperty j dbGet rc idParam) =
             (case dbGet propertyID of
                Inl err \<Rightarrow> if err = ErrRecordNotFound then Failure 404 ''Property not found''
                           else Failure 500 ''Failed to retrieve property''
              | Inr property \<Rightarrow> PropertyOK property False)"
proof -
  obtain got rc1 where g: "GetPropertyCache j rc propertyID = (got, rc1)"
    by (cases "GetPropertyCache j rc propertyID")
  with assms(1) have nohit: "(case got of Inl err \<Rightarrow> None | Inr r \<Rightarrow> r) = None"
    by (cases got) auto
  show ?thesis
    using g nohit assms(2)
    by (simp add: GetProperty_def Let_def split: sum.splits prod.splits)
qed

lemma GetProperty_hit:
  assumes "fst (GetPropertyCache j rc propertyID) = Inr (Some p)"
    and "ParseUint32 idParam = Some propertyID"
  shows "fst (GetProperty j dbGet rc idParam) = PropertyOK p True"
proof -
  obtain got rc1 where g: "GetPropertyCache j rc propertyID = (got, rc1)"
    by (cases "GetPropertyCache j rc propertyID")
  with assms(1) have "got = Inr (Some p)" by simp
  with g assms(2) show ?thesis
    by (simp add: GetProperty_def Let_def)
qed

text \<open>
  C8. Whatever the backend state and its fault schedule: when the cache does not supply a hit
  (the get failed, the payload did not decode, or the key was absent), the response of a
  search and of a property lookup is the one the Data Store's answer dictates, whether or not
  the following set succeeds; and a response is a failure only when the Data Store query
  itself failed.
\<close>

theorem cache_fault_never_fails_read:
  assumes "ParseUint32 idParam = Some propertyID"
  shows "((\<forall>c. fst (GetSearchResultsCache j now rc
                       (generateSearchCacheKey tstr fstr (validatePagination flt))) \<noteq> Inr (Some c))
          \<longrightarrow> fst (SearchProperties tstr fstr j dbSearch convert now rc (Inr flt)) =
                (case dbSearch (validatePagination flt) of
                   Inl err \<Rightarrow> Failure 500 ''Failed to search properties''
                 | Inr (properties, n) \<Rightarrow>
                     SearchOK (convert properties (validatePagination flt)) n
                       (Page (validatePagination flt)) (Limit (validatePagination flt)) False None))
       \<and> (\<forall>code msg. fst (SearchProperties tstr fstr j dbSearch convert now rc (Inr flt))
                         = Failure code msg
             \<longrightarrow> (\<exists>err. dbSearch (validatePagination flt) = Inl err))
       \<and> ((\<forall>p. fst (GetPropertyCache j rc' propertyID) \<noteq> Inr (Some p))
          \<longrightarrow> fst (GetProperty j dbGet rc' idParam) =
                (case dbGet propertyID of
                   Inl err \<Rightarrow> if err = ErrRecordNotFound then Failure 404 ''Property not found''
                              else Failure 500 ''Failed to retrieve property''
                 | Inr property \<Rightarrow> PropertyOK property False))
       \<and> (\<forall>code msg. fst (GetProperty j dbGet rc' idParam) = Failure code msg
             \<longrightarrow> (\<exists>err. dbGet propertyID = Inl err))"
proof -
  have s2: "\<exists>err. dbSearch (validatePagination flt) = Inl err"
    if f: "fst (SearchProperties tstr fstr j dbSearch convert now rc (Inr flt)) = Failure code msg"
    for code msg
  proof (cases "\<exists>c. fst (GetSearchResultsCache j now rc
                       (generateSearchCacheKey tstr fstr (validatePagination flt))) = Inr (Some c)")
    case True
    then obtain c where "fst (GetSearchResultsCache j now rc
                       (generateSearchCacheKey tstr fstr (validatePagination flt))) = Inr (Some c)"
      by blast
    from SearchProperties_hit [OF this, of dbSearch convert] f show ?thesis by simp
  next
    case False
    then have "\<forall>c. fst (GetSearchResultsCache j now rc
                       (generateSearchCacheKey tstr fstr (validatePagination flt))) \<noteq> Inr (Some c)"
      by blast
    from SearchProperties_no_hit [OF this, of dbSearch convert] f show ?thesis
      by (cases "dbSearch (validatePagination flt)") (auto split: prod.splits)
  qed
  have p2: "\<exists>err. dbGet propertyID = Inl err"
    if f: "fst (GetProperty j dbGet rc' idParam) = Failure code msg" for code msg
  proof (cases "\<exists>p. fst (GetPropertyCache j rc' propertyID) = Inr (Some p)")
    case True
    then obtain p where "fst (GetPropertyCache j rc' propertyID) = Inr (Some p)"
      by blast
    from GetProperty_hit [OF this assms, of dbGet] f show ?thesis by simp
  next
    case False
    then have "\<forall>p. fst (GetPropertyCache j rc' propertyID) \<noteq> Inr (Some p)"
      by blast
    from GetProperty_no_hit [OF this assms, of dbGet] f show ?thesis
      by (cases "dbGet propertyID") auto
  qed
  from s2 p2 SearchProperties_no_hit [of j now rc tstr fstr flt dbSearch convert]
       GetProperty_no_hit [OF _ assms, of j rc' dbGet]
  show ?thesis by blast
qed

theorem cache_fault_never_fails_read_witness:
  "ParseUint32 ''42'' = Some 42
   \<and> fst (GetSearchResultsCache stub_json 0 \<lparr>kv = [], faults = [True, True]\<rparr>
            (generateSearchCacheKey zero_tstr zero_fstr (validatePagination zeroFilter)))
       = Inl RedisError
   \<and> fst (SearchProperties zero_tstr zero_fstr stub_json stub_dbSearch stub_convert 0
            \<lparr>kv = [], faults = [True, True]\<rparr> (Inr zeroFilter))
       = SearchOK [''p1'', ''p2''] 2 1 20 False None
   \<and> fst (GetProperty stub_json stub_dbGet \<lparr>kv = [], faults = [True, True]\<rparr> ''42'')
       = PropertyOK ''p42'' False"
  using cache_fault_never_fails_read
    [where idParam = "''42''" and propertyID = 42 and j = stub_json and now = 0
       and rc = "\<lparr>kv = [], faults = [True, True]\<rparr>" and tstr = zero_tstr and fstr = zero_fstr
       and flt = zeroFilter and dbSearch = stub_dbSearch and convert = stub_convert
       and rc' = "\<lparr>kv = [], faults = [True, True]\<rparr>" and dbGet = stub_dbGet]
  by (simp add: GetSearchResultsCache_def GetPropertyCache_def redis_Get_eq next_fault_def
                stub_dbSearch_def stub_dbGet_def stub_convert_def ParseUint32_def isDigit_def
                digitVal_def validatePagination_def zeroFilter_def Let_def)






section \<open>Relay cycle\<close>










































section \<open>Search cache key\<close>


lemma split_at_first:
  assumes "c \<notin> set u" and "c \<notin> set u'" and "u @ c # r = u' @ c # r'"
  shows "u = u' \<and> r = r'"
  using assms
proof (induction u arbitrary: u')
  case Nil
  then show ?case by (cases u') auto
next
  case (Cons a u)
  then show ?case by (cases u') auto
qed

lemma digit_nth: "m < 10 \<Longrightarrow> digitVal (''0123456789'' ! m) = m"
proof -
  assume "m < 10"
  then have "m = 0 \<or> m = 1 \<or> m = 2 \<or> m = 3 \<or> m = 4 \<or> m = 5 \<or> m = 6 \<or> m = 7 \<or> m = 8 \<or> m = 9"
    by arith
  then show ?thesis
    by (elim disjE) (simp_all add: digitVal_def)
qed

lemma digit_isDigit: "m < 10 \<Longrightarrow> isDigit (''0123456789'' ! m)"
proof -
  assume "m < 10"
  then have "m = 0 \<or> m = 1 \<or> m = 2 \<or> m = 3 \<or> m = 4 \<or> m = 5 \<or> m = 6 \<or> m = 7 \<or> m = 8 \<or> m = 9"
    by arith
  then show ?thesis
    by (elim disjE) (simp_all add: isDigit_def)
qed

lemma fmt_d_uint_digits: "c \<in> set (fmt_d_uint n) \<Longrightarrow> isDigit c"
proof (induction n rule: fmt_d_uint.induct)
  case (1 n)
  show ?case
  proof (cases "n < 10")
    case True
    then have "fmt_d_uint n = [''0123456789'' ! n]"
      by (subst fmt_d_uint.simps) simp
    with "1.prems" digit_isDigit [OF True] show ?thesis by simp
  next
    case False
    then have e: "fmt_d_uint n = fmt_d_uint (n div 10) @ [''0123456789'' ! (n mod 10)]"
      by (subst fmt_d_uint.simps) simp
    have m: "isDigit (''0123456789'' ! (n mod 10))"
      by (rule digit_isDigit) simp
    from "1.prems" e have "c \<in> set (fmt_d_uint (n div 10)) \<or> c = ''0123456789'' ! (n mod 10)"
      by auto
    with "1.IH" [OF False] m show ?thesis by blast
  qed
qed

lemma fmt_d_uint_nonempty: "fmt_d_uint n \<noteq> []"
  by (subst fmt_d_uint.simps) simp

lemma fmt_d_uint_val: "foldl (\<lambda>a c. 10 * a + digitVal c) 0 (fmt_d_uint n) = n"
proof (induction n rule: fmt_d_uint.induct)
  case (1 n)
  show ?case
  proof (cases "n < 10")
    case True
    then have "fmt_d_uint n = [''0123456789'' ! n]"
      by (subst fmt_d_uint.simps) simp
    with digit_nth [OF True] show ?thesis by simp
  next
    case False
    then have e: "fmt_d_uint n = fmt_d_uint (n div 10) @ [''0123456789'' ! (n mod 10)]"
      by (subst fmt_d_uint.simps) simp
    have m: "digitVal (''0123456789'' ! (n mod 10)) = n mod 10"
      by (rule digit_nth) simp
    from 1 [OF False]
    have "foldl (\<lambda>a c. 10 * a + digitVal c) 0 (fmt_d_uint n) = 10 * (n div 10) + n mod 10"
      unfolding e foldl_append by (simp only: foldl.simps m)
    then show ?thesis by simp
  qed
qed

lemma fmt_d_uint_inj: "fmt_d_uint m = fmt_d_uint n \<Longrightarrow> m = n"
  by (metis fmt_d_uint_val)

lemma fmt_d_uint_no_minus: "hd (fmt_d_uint n) \<noteq> CHR ''-''"
proof -
  from fmt_d_uint_nonempty [of n] have "hd (fmt_d_uint n) \<in> set (fmt_d_uint n)" by simp
  from fmt_d_uint_digits [OF this] show ?thesis by (auto simp: isDigit_def)
qed

lemma fmt_d_nonempty: "fmt_d i \<noteq> []"
  by (simp add: fmt_d_def fmt_d_uint_nonempty)

lemma fmt_d_no_space: "CHR '' '' \<notin> set (fmt_d i)"
proof
  assume "CHR '' '' \<in> set (fmt_d i)"
  then have "CHR '' '' \<in> set (fmt_d_uint (nat (- i))) \<or> CHR '' '' \<in> set (fmt_d_uint (nat i))"
    by (simp add: fmt_d_def split: if_splits)
  then have "isDigit (CHR '' '')" using fmt_d_uint_digits by blast
  then show False by (simp add: isDigit_def)
qed

lemma fmt_d_no_bracket: "CHR '']'' \<notin> set (fmt_d i)"
proof
  assume "CHR '']'' \<in> set (fmt_d i)"
  then have "CHR '']'' \<in> set (fmt_d_uint (nat (- i))) \<or> CHR '']'' \<in> set (fmt_d_uint (nat i))"
    by (simp add: fmt_d_def split: if_splits)
  then have "isDigit (CHR '']'')" using fmt_d_uint_digits by blast
  then show False by (simp add: isDigit_def)
qed

lemma fmt_d_inj: "fmt_d i = fmt_d k \<Longrightarrow> i = k"
proof -
  assume eq: "fmt_d i = fmt_d k"
  consider "i < 0" "k < 0" | "i < 0" "\<not> k < 0" | "\<not> i < 0" "k < 0" | "\<not> i < 0" "\<not> k < 0"
    by blast
  then show ?thesis
  proof cases
    case 1
    with eq have "fmt_d_uint (nat (- i)) = fmt_d_uint (nat (- k))" by (simp add: fmt_d_def)
    from fmt_d_uint_inj [OF this] 1 show ?thesis by simp
  next
    case 2
    with eq have "CHR ''-'' # fmt_d_uint (nat (- i)) = fmt_d_uint (nat k)" by (simp add: fmt_d_def)
    then have "hd (fmt_d_uint (nat k)) = CHR ''-''" by (metis list.sel(1))
    with fmt_d_uint_no_minus show ?thesis by blast
  next
    case 3
    with eq have "fmt_d_uint (nat i) = CHR ''-'' # fmt_d_uint (nat (- k))" by (simp add: fmt_d_def)
    then have "hd (fmt_d_uint (nat i)) = CHR ''-''" by (metis list.sel(1))
    with fmt_d_uint_no_minus show ?thesis by blast
  next
    case 4
    with eq have "fmt_d_uint (nat i) = fmt_d_uint (nat k)" by (simp add: fmt_d_def)
    from fmt_d_uint_inj [OF this] 4 show ?thesis by simp
  qed
qed


lemma join_sp_Cons: "join_sp (x # xs) = (if xs = [] then x else x @ CHR '' '' # join_sp xs)"
  by (cases xs) simp_all

lemma join_sp_inj:
  assumes "\<forall>x \<in> set xs. x \<noteq> [] \<and> CHR '' '' \<notin> set x"
    and "\<forall>y \<in> set ys. y \<noteq> [] \<and> CHR '' '' \<notin> set y"
    and "join_sp xs = join_sp ys"
  shows "xs = ys"
  using assms
proof (induction xs arbitrary: ys)
  case Nil
  show ?case
  proof (cases ys)
    case Nil
    then show ?thesis by simp
  next
    case (Cons y ys')
    with Nil.prems show ?thesis by (simp add: join_sp_Cons split: if_splits)
  qed
next
  case (Cons x xs)
  show ?case
  proof (cases ys)
    case Nil
    with Cons.prems show ?thesis by (simp add: join_sp_Cons split: if_splits)
  next
    case c: (Cons y ys')
    from Cons.prems(1) have x: "x \<noteq> []" "CHR '' '' \<notin> set x" by simp_all
    from Cons.prems(2) c have y: "y \<noteq> []" "CHR '' '' \<notin> set y" by simp_all
    from Cons.prems(3) c
    have eq: "(if xs = [] then x else x @ CHR '' '' # join_sp xs)
              = (if ys' = [] then y else y @ CHR '' '' # join_sp ys')"
      by (simp add: join_sp_Cons)
    show ?thesis
    proof (cases "xs = []")
      case True
      show ?thesis
      proof (cases "ys' = []")
        case True
        with \<open>xs = []\<close> eq c show ?thesis by simp
      next
        case False
        with True eq have "x = y @ CHR '' '' # join_sp ys'" by simp
        with x(2) show ?thesis by simp
      qed
    next
      case False
      show ?thesis
      proof (cases "ys' = []")
        case True
        with False eq have "y = x @ CHR '' '' # join_sp xs" by simp
        with y(2) show ?thesis by simp
      next
        case ne: False
        with False eq have "x @ CHR '' '' # join_sp xs = y @ CHR '' '' # join_sp ys'" by simp
        from split_at_first [OF x(2) y(2) this] have xy: "x = y" and r: "join_sp xs = join_sp ys'"
          by simp_all
        from Cons.prems(1) have p1: "\<forall>x \<in> set xs. x \<noteq> [] \<and> CHR '' '' \<notin> set x" by simp
        from Cons.prems(2) c have p2: "\<forall>y \<in> set ys'. y \<noteq> [] \<and> CHR '' '' \<notin> set y" by simp
        from Cons.IH [OF p1 p2 r] xy c show ?thesis by simp
      qed
    qed
  qed
qed

lemma join_sp_no_bracket:
  "\<forall>x \<in> set xs. CHR '']'' \<notin> set x \<Longrightarrow> CHR '']'' \<notin> set (join_sp xs)"
  by (induction xs rule: join_sp.induct) simp_all

lemma fmt_v_int64s_inj: "join_sp (map fmt_d a) = join_sp (map fmt_d a') \<Longrightarrow> a = a'"
proof -
  assume eq: "join_sp (map fmt_d a) = join_sp (map fmt_d a')"
  have "map fmt_d a = map fmt_d a'"
    by (rule join_sp_inj [OF _ _ eq]) (auto simp: fmt_d_nonempty fmt_d_no_space)
  then show ?thesis
    by (simp add: inj_map_eq_map [OF injI [of fmt_d]] fmt_d_inj)
qed

lemma ids_body_no_bracket: "CHR '']'' \<notin> set (join_sp (map fmt_d a))"
  by (rule join_sp_no_bracket) (auto simp: fmt_d_no_bracket)

text \<open>
  C4, as the code has it. The amenity and condition ids enter the digested string in the
  order in which the filter holds them; nothing sorts them. For two filters that differ only
  in these two fields the digested strings are equal exactly when both id sequences are equal
  element by element.
\<close>

theorem hashStr_ids_in_order:
  "hashStr tstr fstr (flt\<lparr>AmenityIDs := a, ConditionIDs := c\<rparr>)
     = hashStr tstr fstr (flt\<lparr>AmenityIDs := a', ConditionIDs := c'\<rparr>)
   \<longleftrightarrow> a = a' \<and> c = c'"
proof
  assume "hashStr tstr fstr (flt\<lparr>AmenityIDs := a, ConditionIDs := c\<rparr>)
     = hashStr tstr fstr (flt\<lparr>AmenityIDs := a', ConditionIDs := c'\<rparr>)"
  then have e1: "(CHR ''['' # join_sp (map fmt_d a)) @ CHR '']'' # (CHR '':'' # CHR ''['' # join_sp (map fmt_d c) @ CHR '']'' # R)
        = (CHR ''['' # join_sp (map fmt_d a')) @ CHR '']'' # (CHR '':'' # CHR ''['' # join_sp (map fmt_d c') @ CHR '']'' # R)"
    if "R = '':'' @ fstr (MinRating flt) @ '':'' @ fstr (MaxPrice flt) @ '':'' @
         fstr (MinPrice flt) @ '':'' @ fstr (RadiusKm flt) @ '':'' @ SortBy flt @ '':'' @
         fmt_d (Page flt) @ '':'' @ fmt_d (Limit flt)" for R
    using that by (simp add: hashStr_def fmt_v_int64s_def)
  define R where "R = '':'' @ fstr (MinRating flt) @ '':'' @ fstr (MaxPrice flt) @ '':'' @
         fstr (MinPrice flt) @ '':'' @ fstr (RadiusKm flt) @ '':'' @ SortBy flt @ '':'' @
         fmt_d (Page flt) @ '':'' @ fmt_d (Limit flt)"
  from split_at_first [OF _ _ e1 [OF R_def]] ids_body_no_bracket
  have s1: "join_sp (map fmt_d a) = join_sp (map fmt_d a')"
    and r1: "(CHR '':'' # CHR ''['' # join_sp (map fmt_d c)) @ CHR '']'' # R
           = (CHR '':'' # CHR ''['' # join_sp (map fmt_d c')) @ CHR '']'' # R"
    by simp_all
  from split_at_first [OF _ _ r1] ids_body_no_bracket
  have s2: "join_sp (map fmt_d c) = join_sp (map fmt_d c')"
    by simp
  from fmt_v_int64s_inj [OF s1] fmt_v_int64s_inj [OF s2] show "a = a' \<and> c = c'" by simp
next
  assume "a = a' \<and> c = c'"
  then show "hashStr tstr fstr (flt\<lparr>AmenityIDs := a, ConditionIDs := c\<rparr>)
     = hashStr tstr fstr (flt\<lparr>AmenityIDs := a', ConditionIDs := c'\<rparr>)"
    by simp
qed

theorem hashStr_ids_in_order_witness:
  "hashStr zero_tstr zero_fstr (zeroFilter\<lparr>AmenityIDs := [1, 2], ConditionIDs := []\<rparr>)
     \<noteq> hashStr zero_tstr zero_fstr (zeroFilter\<lparr>AmenityIDs := [2, 1], ConditionIDs := []\<rparr>)"
  using hashStr_ids_in_order
    [where tstr = zero_tstr and fstr = zero_fstr and flt = zeroFilter
       and a = "[1, 2]" and a' = "[2, 1]" and c = "[]" and c' = "[]"]
  by simp

lemma key_amenities_1_2:
  "generateSearchCacheKey zero_tstr zero_fstr
     (zeroFilter\<lparr>AmenityIDs := [1, 2], Page := 1, Limit := 20\<rparr>)
   = ''search:b5f7368168812265d12b410e392e5f38''"
  by code_simp

lemma key_amenities_2_1:
  "generateSearchCacheKey zero_tstr zero_fstr
     (zeroFilter\<lparr>AmenityIDs := [2, 1], Page := 1, Limit := 20\<rparr>)
   = ''search:ca6320496031dbb9f0c07bd87e36851f''"
  by code_simp

text \<open>
  C4 as stated fails: the filters with amenity ids \<open>[1, 2]\<close> and \<open>[2, 1]\<close>, equal in every
  other field, get different keys.
\<close>

theorem generateSearchCacheKey_id_order_matters:
  "generateSearchCacheKey zero_tstr zero_fstr
     (zeroFilter\<lparr>AmenityIDs := [1, 2], Page := 1, Limit := 20\<rparr>)
   \<noteq> generateSearchCacheKey zero_tstr zero_fstr
     (zeroFilter\<lparr>AmenityIDs := [2, 1], Page := 1, Limit := 20\<rparr>)"
  by (simp add: key_amenities_1_2 key_amenities_2_1)

lemma key_pet_friendly_at_340:
  "generateSearchCacheKey zero_tstr zero_fstr
     (zeroFilter\<lparr>PetFriendly := Ptr 0xc000012340 True, Page := 1, Limit := 20\<rparr>)
   = ''search:2f84793871f37d8e62eab8db4f1ef596''"
  by code_simp

lemma key_pet_friendly_at_348:
  "generateSearchCacheKey zero_tstr zero_fstr
     (zeroFilter\<lparr>PetFriendly := Ptr 0xc000012348 True, Page := 1, Limit := 20\<rparr>)
   = ''search:6436ee7d2314009d8130732ab458fef9''"
  by code_simp

text \<open>
  C3 fails on the code. Two filters with the same content, \<^verbatim>\<open>pet_friendly\<close> set to true
  and every other field zero, whose bool cells lie at different addresses, as the cells of two
  requests or of two runs of the process do, get different keys: \<^verbatim>\<open>%t\<close> is given the
  pointer, and the address is what is digested.
\<close>

theorem generateSearchCacheKey_digests_address:
  "generateSearchCacheKey zero_tstr zero_fstr
     (zeroFilter\<lparr>PetFriendly := Ptr 0xc000012340 True, Page := 1, Limit := 20\<rparr>)
   \<noteq> generateSearchCacheKey zero_tstr zero_fstr
     (zeroFilter\<lparr>PetFriendly := Ptr 0xc000012348 True, Page := 1, Limit := 20\<rparr>)"
  by (simp add: key_pet_friendly_at_340 key_pet_friendly_at_348)

end
